theory Spec2Isabelle
  imports Main
begin

section \<open>Exceptions and outcomes of awaited operations\<close>

text \<open>
  The exceptions that \<^verbatim>\<open>aiter_utils.py\<close> raises, catches or lets pass.
  \<open>StopAsyncIteration\<close>, \<open>RuntimeError\<close>, \<open>TypeError\<close>, \<open>ValueError\<close>,
  \<open>AssertionError\<close> and \<open>ClosedResourceError\<close> (a send on a closed channel) derive
  from Python's \<open>Exception\<close>; \<open>GeneratorExit\<close>, \<open>KeyboardInterrupt\<close> and the
  cancellation exception \<open>CancelledError\<close> derive from \<open>BaseException\<close> only.
\<close>

datatype exc =
    StopAsyncIteration
  | GeneratorExit
  | CancelledError
  | KeyboardInterrupt
  | AssertionError
  | ClosedResourceError
  | RuntimeError string
  | TypeError string
  | ValueError string

text \<open>\<open>isinstance(e, Exception)\<close>, the test of the clause \<^verbatim>\<open>except Exception as exc\<close>.\<close>

fun is_Exception :: "exc \<Rightarrow> bool" where
  "is_Exception GeneratorExit = False"
| "is_Exception CancelledError = False"
| "is_Exception KeyboardInterrupt = False"
| "is_Exception _ = True"

text \<open>
  An awaited call returns a value, raises, or never resumes (the coroutine stays
  suspended for ever: nothing will wake it).
\<close>

datatype 'r outcome = Returns 'r | Raises exc | Hangs

text \<open>
  \<^verbatim>\<open>try: body finally: cleanup\<close>. The cleanup runs when the body returned or
  raised; an exception of the cleanup replaces the one of the body; a body that never
  resumes never reaches the cleanup.
\<close>

definition try_finally ::
  "'r outcome \<times> 's \<Rightarrow> ('s \<Rightarrow> unit outcome \<times> 's) \<Rightarrow> 'r outcome \<times> 's" where
  "try_finally body cleanup =
     (case body of
        (Hangs, s) \<Rightarrow> (Hangs, s)
      | (r, s) \<Rightarrow>
          (case cleanup s of
             (Returns _, s') \<Rightarrow> (r, s')
           | (Raises e, s') \<Rightarrow> (Raises e, s')
           | (Hangs, s') \<Rightarrow> (Hangs, s')))"

section \<open>The wrapped asynchronous iterator\<close>

text \<open>
  What the context sees of the iterator it wraps: the results of its successive
  \<open>__anext__\<close> calls (an item, an exception, or \<open>Pending\<close> for a call that
  suspends and is not resumed by the iterator itself; once the list is used up the
  iterator raises \<open>StopAsyncIteration\<close>), its \<open>aclose\<close> attribute (\<open>None\<close> when
  \<^verbatim>\<open>getattr(it, 'aclose', None)\<close> is falsy, otherwise what awaiting \<open>aclose()\<close> does),
  the truth value of \<^verbatim>\<open>getattr(it, 'ag_running', False)\<close>, and a counter of the
  \<open>aclose()\<close> calls made so far.
\<close>

datatype 'a pull = Yield 'a | Throw exc | Pending

datatype aclose_hook = Completes | Fails exc

record 'a async_iterator =
  pulls :: "'a pull list"
  aclose :: "aclose_hook option"
  ag_running :: bool
  aclose_calls :: nat

text \<open>\<^verbatim>\<open>await anext(self._aiterator)\<close>: one call of the iterator's \<open>__anext__\<close>.\<close>

definition anext_aiterator :: "'a async_iterator \<Rightarrow> 'a outcome \<times> 'a async_iterator" where
  "anext_aiterator it =
     (case pulls it of
        [] \<Rightarrow> (Raises StopAsyncIteration, it)
      | Yield v # ps \<Rightarrow> (Returns v, it\<lparr>pulls := ps\<rparr>)
      | Throw e # ps \<Rightarrow> (Raises e, it\<lparr>pulls := ps\<rparr>)
      | Pending # ps \<Rightarrow> (Hangs, it\<lparr>pulls := ps\<rparr>))"

section \<open>The context object\<close>

datatype ctx_state = STANDBY | RUNNING | FINISHED | BUSY | EXHAUSTED

text \<open>
  The pair sent on the item channel: \<^verbatim>\<open>(item, None)\<close> is \<open>Item item\<close> and
  \<^verbatim>\<open>(None, exc)\<close> is \<open>Error exc\<close>; the test \<^verbatim>\<open>exc is not None\<close> asks which.
\<close>

datatype 'a message = Item 'a | Error exc

text \<open>
  The coroutine \<open>_task_target\<close> is suspended at one of its \<open>await\<close>s or is over:
  \<open>AwaitSync\<close> is line 127 (\<^verbatim>\<open>await self._sync_receiver.receive()\<close>),
  \<open>AwaitAnext\<close> line 131, \<open>AwaitSendItem\<close> line 132, \<open>AwaitSendExc\<close> line 141,
  and \<open>Done r\<close> a task that returned (\<open>None\<close>) or raised.
\<close>

datatype 'a task =
  NotSpawned | AwaitSync | AwaitAnext | AwaitSendItem 'a | AwaitSendExc exc | Done "exc option"

text \<open>
  The fields of \<open>AsyncIteratorContext\<close>: \<open>_state\<close>, \<open>_aiterator\<close>, the task
  group (the task it holds and whether its cancel scope was cancelled), the item channel
  (closed or not: the messages themselves are held by the suspended sender, the channel
  being a rendezvous), the sync channel (closed or not), and the number of warnings
  issued.
\<close>

record 'a ctx =
  state :: ctx_state
  aiterator :: "'a async_iterator"
  task :: "'a task"
  cancel_called :: bool
  item_closed :: bool
  sync_closed :: bool
  warnings :: nat

section \<open>The producer: \<open>_task_target\<close>\<close>

text \<open>
  Modelled from the spec: the shielded sub-scope primitive of the module \<open>compat\<close>
  (\<open>open_cancel_scope\<close>), which is not among the sources: "executes an operation such
  that cancellation of the enclosing scope does not propagate into it"; without the
  shield "a cancellation that ends the loop would also immediately cancel its own
  cleanup". The arguments are the shield flag, whether the enclosing scope is cancelled
  and the awaited operation; the result is the exception raised, if any.
\<close>

definition open_cancel_scope :: "bool \<Rightarrow> bool \<Rightarrow> aclose_hook \<Rightarrow> exc option" where
  "open_cancel_scope shield cancelled body =
     (if cancelled \<and> \<not> shield then Some CancelledError
      else (case body of Completes \<Rightarrow> None | Fails e \<Rightarrow> Some e))"

text \<open>
  Lines 144 to 161, the \<^verbatim>\<open>finally\<close> clause, followed by the exit of
  \<^verbatim>\<open>async with self._item_sender\<close>, which closes the item channel and ends the task.
  \<open>pending\<close> is the exception on its way through the clause (\<open>None\<close> after a
  \<^verbatim>\<open>break\<close>).
\<close>

definition task_finally :: "exc option \<Rightarrow> 'a ctx \<Rightarrow> 'a ctx" where
  "task_finally pending c =
     (let it = aiterator c in
      case aclose it of
        None \<Rightarrow> c\<lparr>task := Done pending, item_closed := True\<rparr>
      | Some hook \<Rightarrow>
          if ag_running it then c\<lparr>task := Done pending, item_closed := True\<rparr>
          else
            (case open_cancel_scope True (cancel_called c) hook of
               None \<Rightarrow>
                 c\<lparr>aiterator := it\<lparr>aclose_calls := aclose_calls it + 1\<rparr>,
                   task := Done pending, item_closed := True\<rparr>
             | Some e \<Rightarrow>
                 c\<lparr>aiterator := it\<lparr>aclose_calls := aclose_calls it + 1\<rparr>,
                   task := Done (if e = GeneratorExit then pending else Some e),
                   item_closed := True\<rparr>))"

text \<open>
  Line 141, \<^verbatim>\<open>await self._item_sender.send((None, exc))\<close>, inside the handler: a
  send on a closed channel raises and leaves through the \<^verbatim>\<open>finally\<close> clause,
  otherwise the task is suspended until the consumer receives.
\<close>

definition send_exc :: "exc \<Rightarrow> 'a ctx \<Rightarrow> 'a ctx" where
  "send_exc e c =
     (if item_closed c then task_finally (Some ClosedResourceError) c
      else c\<lparr>task := AwaitSendExc e\<rparr>)"

text \<open>
  Lines 135 to 142, the handlers of the inner \<^verbatim>\<open>try\<close>, in the source's order:
  \<open>StopAsyncIteration\<close> breaks, any other \<open>Exception\<close> is sent and then breaks,
  everything else is not caught.
\<close>

definition task_except :: "exc \<Rightarrow> 'a ctx \<Rightarrow> 'a ctx" where
  "task_except e c =
     (if e = StopAsyncIteration then task_finally None c
      else if is_Exception e then send_exc e c
      else task_finally (Some e) c)"

text \<open>Line 132, \<^verbatim>\<open>await self._item_sender.send((item, None))\<close>, inside the \<^verbatim>\<open>try\<close>.\<close>

definition send_item :: "'a \<Rightarrow> 'a ctx \<Rightarrow> 'a ctx" where
  "send_item v c =
     (if item_closed c then task_except ClosedResourceError c
      else c\<lparr>task := AwaitSendItem v\<rparr>)"

text \<open>
  The task resumed at line 127 with a demand token: lines 129 to 142, up to the next
  suspension.
\<close>

definition task_iteration :: "'a ctx \<Rightarrow> 'a ctx" where
  "task_iteration c =
     (case anext_aiterator (aiterator c) of
        (Returns v, it') \<Rightarrow> send_item v (c\<lparr>aiterator := it'\<rparr>)
      | (Raises e, it') \<Rightarrow> task_except e (c\<lparr>aiterator := it'\<rparr>)
      | (Hangs, it') \<Rightarrow> c\<lparr>aiterator := it', task := AwaitAnext\<rparr>)"

text \<open>
  The task resumed after its send was received: \<^verbatim>\<open>continue\<close> at line 133 leads back
  to line 127, \<^verbatim>\<open>break\<close> at line 142 to the \<^verbatim>\<open>finally\<close> clause.
\<close>

definition task_sent :: "'a ctx \<Rightarrow> 'a ctx" where
  "task_sent c =
     (case task c of
        AwaitSendItem _ \<Rightarrow> c\<lparr>task := AwaitSync\<rparr>
      | AwaitSendExc _ \<Rightarrow> task_finally None c
      | _ \<Rightarrow> c)"

text \<open>
  The task cancelled while suspended: \<open>CancelledError\<close> is raised at the
  \<^verbatim>\<open>await\<close>. At line 127 and in the handler (line 141) it goes straight to the
  \<^verbatim>\<open>finally\<close> clause; at lines 131 and 132 it passes the handlers first. A task
  that is not suspended (not spawned, or over) is left alone.
\<close>

definition task_cancel :: "'a ctx \<Rightarrow> 'a ctx" where
  "task_cancel c =
     (case task c of
        AwaitSync \<Rightarrow> task_finally (Some CancelledError) c
      | AwaitAnext \<Rightarrow> task_except CancelledError c
      | AwaitSendItem _ \<Rightarrow> task_except CancelledError c
      | AwaitSendExc _ \<Rightarrow> task_finally (Some CancelledError) c
      | _ \<Rightarrow> c)"

section \<open>Channels and task group, as the consumer uses them\<close>

text \<open>
  Modelled from the spec: the rendezvous channels of the module \<open>compat\<close>
  (\<open>open_channel\<close>), which is not among the sources: "\<open>send(v)\<close> blocks until a
  receiver is ready; \<open>receive()\<close> blocks until a value is sent or the channel is closed;
  \<open>close()\<close> makes pending and future \<open>receive()\<close> calls observe exhaustion".
  The scheduling is cooperative: a task that is woken runs up to its next suspension.
  \<open>sync_send\<close> is line 186: the token is taken when the producer waits at line 127,
  and the producer then runs one iteration; with no receiver waiting the send never
  completes; a send on a channel that was closed raises.
\<close>

definition sync_send :: "'a ctx \<Rightarrow> unit outcome \<times> 'a ctx" where
  "sync_send c =
     (if sync_closed c then (Raises ClosedResourceError, c)
      else if task c = AwaitSync then (Returns (), task_iteration c)
      else (Hangs, c))"

text \<open>
  Modelled from the spec: \<^verbatim>\<open>await anext(self._item_receiver)\<close>, line 190, on the same
  channels: the message of a suspended sender is handed over and the sender resumes; a
  closed channel is exhausted (\<open>StopAsyncIteration\<close>); otherwise nothing will ever
  arrive.
\<close>

definition item_receive :: "'a ctx \<Rightarrow> 'a message outcome \<times> 'a ctx" where
  "item_receive c =
     (case task c of
        AwaitSendItem v \<Rightarrow> (Returns (Item v), task_sent c)
      | AwaitSendExc e \<Rightarrow> (Returns (Error e), task_sent c)
      | _ \<Rightarrow> if item_closed c then (Raises StopAsyncIteration, c) else (Hangs, c))"

text \<open>
  Modelled from the spec: the structured concurrency scope of the module \<open>compat\<close>
  (\<open>create_task_group\<close>), which is not among the sources: \<open>spawn\<close>,
  \<open>requestCancel\<close> and \<open>exitScope(outcome)\<close>, which "must guarantee that on
  \<open>exitScope\<close>, all spawned work has completed or been cancelled and joined".
  \<open>spawn\<close> starts \<open>_task_target\<close>, which enters \<^verbatim>\<open>async with self._item_sender\<close>
  and the loop and suspends at line 127. The context records one task: the task of a
  later \<open>spawn\<close> takes the place of the earlier one.
\<close>

definition spawn :: "'a ctx \<Rightarrow> 'a ctx" where
  "spawn c = c\<lparr>task := AwaitSync\<rparr>"

text \<open>
  Modelled from the spec: \<open>requestCancel\<close> of the same scope,
  \<^verbatim>\<open>await self._task_group.cancel_scope.cancel()\<close> at line 227: the scope is marked
  as cancelled and its suspended task is cancelled.
\<close>

definition tg_cancel :: "'a ctx \<Rightarrow> unit outcome \<times> 'a ctx" where
  "tg_cancel c = (Returns (), task_cancel (c\<lparr>cancel_called := True\<rparr>))"

text \<open>
  Modelled from the spec: \<open>exitScope(outcome)\<close> of the same scope,
  \<^verbatim>\<open>await self._task_group.__aexit__(typ, value, traceback)\<close> at lines 230 and 232: a
  scope left with an exception cancels its tasks; the scope then waits for its task (for
  ever, when the task is suspended and nothing will resume it) and raises what the task
  raised, its own cancellation apart.
\<close>

definition tg_aexit :: "exc option \<Rightarrow> 'a ctx \<Rightarrow> unit outcome \<times> 'a ctx" where
  "tg_aexit typ c =
     (let c' = (if typ = None then c else snd (tg_cancel c)) in
      case task c' of
        NotSpawned \<Rightarrow> (Returns (), c')
      | Done None \<Rightarrow> (Returns (), c')
      | Done (Some e) \<Rightarrow> if e = CancelledError then (Returns (), c') else (Raises e, c')
      | _ \<Rightarrow> (Hangs, c'))"

text \<open>
  Modelled from the spec: \<open>close()\<close> of the sync channel,
  \<^verbatim>\<open>await self._sync_sender.__aexit__(*sys.exc_info())\<close> at line 234.
\<close>

definition sync_aexit :: "'a ctx \<Rightarrow> unit outcome \<times> 'a ctx" where
  "sync_aexit c = (Returns (), c\<lparr>sync_closed := True\<rparr>)"

section \<open>The consumer: \<open>__aenter__\<close>, \<open>__anext__\<close>, \<open>__aexit__\<close>\<close>

text \<open>
  Lines 206 to 218. Entering the sync sender and the task group changes nothing that the
  model records; the task is spawned at line 217.
\<close>

definition aenter :: "'a ctx \<Rightarrow> unit outcome \<times> 'a ctx" where
  "aenter c =
     (if state c = RUNNING then
        (Raises (RuntimeError ''AsyncIteratorContext is running and cannot be entered''), c)
      else if state c = FINISHED then
        (Raises (RuntimeError ''AsyncIteratorContext is closed and cannot be entered''), c)
      else (Returns (), spawn (c\<lparr>state := RUNNING\<rparr>)))"

text \<open>Lines 166 to 204.\<close>

definition anext_ctx :: "'a ctx \<Rightarrow> 'a outcome \<times> 'a ctx" where
  "anext_ctx c =
     (case (if state c = STANDBY then aenter (c\<lparr>warnings := warnings c + 1\<rparr>)
            else (Returns (), c)) of
        (Raises e, c0) \<Rightarrow> (Raises e, c0)
      | (Hangs, c0) \<Rightarrow> (Hangs, c0)
      | (Returns _, c0) \<Rightarrow>
          if state c0 = FINISHED then
            (Raises (RuntimeError ''AsyncIteratorContext is closed and cannot be iterated''), c0)
          else if state c0 = EXHAUSTED then (Raises StopAsyncIteration, c0)
          else
            (case (if state c0 \<noteq> BUSY then sync_send (c0\<lparr>state := BUSY\<rparr>)
                   else (Returns (), c0)) of
               (Raises e, c1) \<Rightarrow> (Raises e, c1)
             | (Hangs, c1) \<Rightarrow> (Hangs, c1)
             | (Returns _, c1) \<Rightarrow>
                 (case item_receive c1 of
                    (Raises e, c2) \<Rightarrow>
                      if e = StopAsyncIteration then (Raises e, c2\<lparr>state := EXHAUSTED\<rparr>)
                      else (Raises e, c2)
                  | (Hangs, c2) \<Rightarrow> (Hangs, c2)
                  | (Returns (Error e), c2) \<Rightarrow> (Raises e, c2\<lparr>state := EXHAUSTED\<rparr>)
                  | (Returns (Item v), c2) \<Rightarrow> (Returns v, c2\<lparr>state := RUNNING\<rparr>))))"

text \<open>
  Lines 220 to 236; \<open>typ\<close> is the exception the \<^verbatim>\<open>async with\<close> block is left with
  (\<open>None\<close>: none). The three nested \<^verbatim>\<open>try ... finally\<close> are kept as they are.
\<close>

definition aexit :: "exc option \<Rightarrow> 'a ctx \<Rightarrow> unit outcome \<times> 'a ctx" where
  "aexit typ c =
     try_finally
       (if state c = FINISHED then (Returns (), c)
        else
          try_finally
            (try_finally
               (if typ = None \<or> typ = Some GeneratorExit then tg_cancel c
                else (Returns (), c))
               (\<lambda>c1. if typ = Some GeneratorExit then tg_aexit None c1
                      else tg_aexit typ c1))
            sync_aexit)
       (\<lambda>c3. (Returns (), c3\<lparr>state := FINISHED\<rparr>))"

text \<open>
  \<open>n\<close> successive \<open>__anext__\<close> calls, as \<^verbatim>\<open>async for\<close> or repeated
  \<^verbatim>\<open>await anext(ctx)\<close> make them, with the outcome of each call in order.
\<close>

fun iterate :: "nat \<Rightarrow> 'a ctx \<Rightarrow> 'a outcome list \<times> 'a ctx" where
  "iterate 0 c = ([], c)"
| "iterate (Suc n) c =
     (case anext_ctx c of (r, c') \<Rightarrow>
        (case iterate n c' of (rs, c'') \<Rightarrow> (r # rs, c'')))"

text \<open>
  The scenario \<open>enter()\<close>, \<open>n\<close> times \<open>next()\<close>, \<open>exit()\<close> with no exception
  left in the block (the caller handles what \<open>next()\<close> raises): the outcomes of the
  \<open>next()\<close> calls, the outcome of \<open>exit()\<close> and the context afterwards. When
  \<open>enter()\<close> fails nothing else is called.
\<close>

definition scoped_iteration :: "nat \<Rightarrow> 'a ctx \<Rightarrow> 'a outcome list \<times> unit outcome \<times> 'a ctx" where
  "scoped_iteration n c =
     (case aenter c of
        (Returns _, c1) \<Rightarrow>
          (case iterate n c1 of (rs, c2) \<Rightarrow>
             (case aexit None c2 of (r, c3) \<Rightarrow> (rs, r, c3)))
      | (r, c1) \<Rightarrow> ([], r, c1))"

text \<open>
  The order in which the states are met in a correct use; \<open>RUNNING\<close> and \<open>BUSY\<close>
  alternate during the iteration and share a rank.
\<close>

fun rank :: "ctx_state \<Rightarrow> nat" where
  "rank STANDBY = 0"
| "rank RUNNING = 1"
| "rank BUSY = 1"
| "rank EXHAUSTED = 2"
| "rank FINISHED = 3"

fun is_done :: "'a task \<Rightarrow> bool" where
  "is_done (Done _) = True"
| "is_done _ = False"

section \<open>Objects, classes and the wrapping entry point\<close>

text \<open>
  \<open>AsyncIteratorContext\<close> and the classes derived from it (the optional argument
  \<open>cls\<close> of \<open>aitercontext\<close> is one of them), and any other class by its name.
\<close>

datatype ctx_class = AsyncIteratorContext | Subclass string ctx_class

datatype pyclass = CtxClass ctx_class | OtherClass string

fun issubclass_ctx :: "ctx_class \<Rightarrow> ctx_class \<Rightarrow> bool" where
  "issubclass_ctx AsyncIteratorContext d = (d = AsyncIteratorContext)"
| "issubclass_ctx (Subclass n b) d = (Subclass n b = d \<or> issubclass_ctx b d)"

fun issubclass :: "pyclass \<Rightarrow> pyclass \<Rightarrow> bool" where
  "issubclass (CtxClass a) (CtxClass b) = issubclass_ctx a b"
| "issubclass (OtherClass n) (OtherClass m) = (n = m)"
| "issubclass _ _ = False"

text \<open>
  The objects handed to the module: an asynchronous iterator that is not a context (it
  has \<open>__anext__\<close>, and \<open>__aiter__\<close> returning itself), a context of some class, an
  object with \<open>__aiter__\<close> only (returning the given object), and an object with
  neither method. The strings are the names of their classes.
\<close>

datatype 'a pyobj =
    AsyncIterator string "'a async_iterator"
  | Context ctx_class "'a ctx"
  | AsyncIterable string "'a pyobj"
  | Other string

fun class_of :: "'a pyobj \<Rightarrow> pyclass" where
  "class_of (AsyncIterator n _) = OtherClass n"
| "class_of (Context k _) = CtxClass k"
| "class_of (AsyncIterable n _) = OtherClass n"
| "class_of (Other n) = OtherClass n"

definition isinstance :: "'a pyobj \<Rightarrow> pyclass \<Rightarrow> bool" where
  "isinstance obj k = issubclass (class_of obj) k"

text \<open>\<open>type(obj).__name__\<close>, its \<open>repr\<close> (the name in quotes), and \<open>repr(obj)\<close>.\<close>

fun class_name :: "ctx_class \<Rightarrow> string" where
  "class_name AsyncIteratorContext = ''AsyncIteratorContext''"
| "class_name (Subclass n _) = n"

fun type_name :: "'a pyobj \<Rightarrow> string" where
  "type_name (AsyncIterator n _) = n"
| "type_name (Context k _) = class_name k"
| "type_name (AsyncIterable n _) = n"
| "type_name (Other n) = n"

definition quoted :: "string \<Rightarrow> string" where
  "quoted s = CHR 0x27 # s @ [CHR 0x27]"

definition repr :: "'a pyobj \<Rightarrow> string" where
  "repr obj = ''<'' @ type_name obj @ '' object>''"

text \<open>Lines 52 to 77.\<close>

fun is_async_iterable :: "'a pyobj \<Rightarrow> bool" where
  "is_async_iterable (Other _) = False"
| "is_async_iterable _ = True"

definition assert_async_iterable :: "'a pyobj \<Rightarrow> exc + unit" where
  "assert_async_iterable obj =
     (if \<not> is_async_iterable obj
      then Inl (TypeError (quoted (type_name obj) @ '' object is not async iterable''))
      else Inr ())"

fun is_async_iterator :: "'a pyobj \<Rightarrow> bool" where
  "is_async_iterator (AsyncIterator _ _) = True"
| "is_async_iterator (Context _ _) = True"
| "is_async_iterator _ = False"

definition assert_async_iterator :: "'a pyobj \<Rightarrow> exc + unit" where
  "assert_async_iterator obj =
     (if \<not> is_async_iterator obj
      then Inl (TypeError (quoted (type_name obj) @ '' object is not an async iterator''))
      else Inr ())"

text \<open>Lines 22 to 25: \<open>aiter\<close>.\<close>

definition aiter :: "'a pyobj \<Rightarrow> exc + 'a pyobj" where
  "aiter obj =
     (case assert_async_iterable obj of
        Inl e \<Rightarrow> Inl e
      | Inr _ \<Rightarrow> Inr (case obj of AsyncIterable _ it \<Rightarrow> it | _ \<Rightarrow> obj))"

text \<open>Lines 112 to 116: the fields of a new context.\<close>

definition new_ctx :: "'a async_iterator \<Rightarrow> 'a ctx" where
  "new_ctx it =
     \<lparr>state = STANDBY, aiterator = it, task = NotSpawned, cancel_called = False,
      item_closed = False, sync_closed = False, warnings = 0\<rparr>"

text \<open>
  Lines 106 to 116: \<open>cls(aiterator)\<close>, for a class \<open>cls\<close> that inherits
  \<open>__init__\<close>; \<open>ait\<close> is the argument \<open>aiterator\<close>. An object that passes both checks is an \<open>AsyncIterator\<close>, so the last
  case never applies (lemma \<open>init_cases\<close>).
\<close>

definition AsyncIteratorContext_init :: "ctx_class \<Rightarrow> 'a pyobj \<Rightarrow> exc + 'a pyobj" where
  "AsyncIteratorContext_init cls ait =
     (case assert_async_iterator ait of
        Inl e \<Rightarrow> Inl e
      | Inr _ \<Rightarrow>
          if isinstance ait (CtxClass AsyncIteratorContext) then
            Inl (TypeError (repr ait @ '' is already an AsyncIteratorContext''))
          else
            (case ait of
               AsyncIterator _ it \<Rightarrow> Inr (Context cls (new_ctx it))
             | _ \<Rightarrow> Inl (TypeError (quoted (type_name ait) @ '' object is not an async iterator''))))"

text \<open>Lines 239 to 263: \<open>aitercontext\<close>.\<close>

definition aitercontext :: "'a pyobj \<Rightarrow> pyclass \<Rightarrow> exc + 'a pyobj" where
  "aitercontext aiterable cls =
     (case cls of
        OtherClass _ \<Rightarrow> Inl AssertionError
      | CtxClass k \<Rightarrow>
          (case aiter aiterable of
             Inl e \<Rightarrow> Inl e
           | Inr ait \<Rightarrow>
               if isinstance ait cls then Inr ait
               else AsyncIteratorContext_init k ait))"

text \<open>
  The names the specification gives to the errors, read on the code: the capability
  checks raise \<open>TypeError\<close> (\<open>TypeMismatch\<close>), the state machine raises
  \<open>RuntimeError\<close> (\<open>InvalidState\<close>), and \<open>StopAsyncIteration\<close> is
  \<open>IterationComplete\<close>.
\<close>

datatype error_kind = TypeMismatch | InvalidState | IterationComplete | OtherError

fun spec_error_kind :: "exc \<Rightarrow> error_kind" where
  "spec_error_kind (TypeError _) = TypeMismatch"
| "spec_error_kind (RuntimeError _) = InvalidState"
| "spec_error_kind StopAsyncIteration = IterationComplete"
| "spec_error_kind _ = OtherError"

section \<open>Awaiting: \<open>async_\<close>\<close>

text \<open>
  What a call returns: a plain value, or an awaitable, which when awaited suspends a
  number of times and then returns or raises. \<^verbatim>\<open>await obj\<close> on a plain value raises
  \<open>TypeError\<close> without suspending.
\<close>

datatype 'v pyvalue = Plain 'v | Awaitable nat "exc + 'v"

definition await :: "'v pyvalue \<Rightarrow> nat \<times> (exc + 'v)" where
  "await obj =
     (case obj of
        Plain _ \<Rightarrow>
          (0, Inl (TypeError (''object can'' @ [CHR 0x27] @ ''t be used in ''
                              @ quoted ''await'' @ '' expression'')))
      | Awaitable n r \<Rightarrow> (n, r))"

text \<open>
  Lines 42 to 47: \<open>async_(fn)\<close> is the function \<open>wrapper\<close>, here
  \<open>async_wrapper fn\<close> (a name cannot end with an underscore); calling it gives a
  coroutine, that is an awaitable whose body is
  \<^verbatim>\<open>return await fn(*args, **kwargs)\<close>.
\<close>

definition async_wrapper :: "('args \<Rightarrow> exc + 'v pyvalue) \<Rightarrow> 'args \<Rightarrow> 'v pyvalue" where
  "async_wrapper fn args =
     (case fn args of
        Inl e \<Rightarrow> Awaitable 0 (Inl e)
      | Inr obj \<Rightarrow> (case await obj of (n, r) \<Rightarrow> Awaitable n r))"

section \<open>Example sources\<close>

text \<open>
  An empty source without close hook; the two sources of the concrete scenarios (three
  items, and an item followed by an error on the second pull), with a close hook that
  completes and not reported as running; a source that reports itself as running; a
  source whose first pull raises \<open>KeyboardInterrupt\<close>; a source whose close hook
  raises \<open>ValueError\<close>; and a source whose close hook raises the cancellation error.
\<close>

definition empty_source :: "nat async_iterator" where
  "empty_source = \<lparr>pulls = [], aclose = None, ag_running = False, aclose_calls = 0\<rparr>"

definition three_items :: "nat async_iterator" where
  "three_items =
     \<lparr>pulls = [Yield 1, Yield 2, Yield 3], aclose = Some Completes, ag_running = False,
      aclose_calls = 0\<rparr>"

definition running_source :: "nat async_iterator" where
  "running_source =
     \<lparr>pulls = [Yield 1], aclose = Some Completes, ag_running = True, aclose_calls = 0\<rparr>"

definition interrupted_source :: "nat async_iterator" where
  "interrupted_source =
     \<lparr>pulls = [Throw KeyboardInterrupt], aclose = Some Completes, ag_running = False,
      aclose_calls = 0\<rparr>"



definition boom_source :: "nat async_iterator" where
  "boom_source =
     \<lparr>pulls = [Yield 1, Throw (ValueError ''boom'')], aclose = Some Completes,
      ag_running = False, aclose_calls = 0\<rparr>"

section \<open>Misuse of the state machine\<close>

lemma aenter_RUNNING:
  "state c = RUNNING \<Longrightarrow>
   aenter c = (Raises (RuntimeError ''AsyncIteratorContext is running and cannot be entered''), c)"
  by (simp add: aenter_def)


lemma aexit_FINISHED: "state c = FINISHED \<Longrightarrow> aexit typ c = (Returns (), c)"
  by (simp add: aexit_def try_finally_def)

lemma task_finally_done: "is_done (task (task_finally p c))"
  by (simp add: task_finally_def Let_def split: option.splits)

lemma task_finally_state [simp]: "state (task_finally p c) = state c"
  by (simp add: task_finally_def Let_def split: option.splits)

lemma task_cancel_state [simp]: "state (task_cancel c) = state c"
  by (cases "task c") (auto simp: task_cancel_def task_except_def)

lemma task_cancel_not_suspended:
  "task (task_cancel c) = NotSpawned \<or> is_done (task (task_cancel c))"
  by (cases "task c") (auto simp: task_cancel_def task_except_def task_finally_done)

lemma task_cancel_idle:
  "task c = NotSpawned \<or> is_done (task c) \<Longrightarrow> task_cancel c = c"
  by (cases "task c") (auto simp: task_cancel_def)

lemma tg_aexit_idle:
  assumes "task c = NotSpawned \<or> is_done (task c)"
  shows "fst (tg_aexit typ c) \<noteq> Hangs"
proof -
  have "task_cancel (c\<lparr>cancel_called := True\<rparr>) = c\<lparr>cancel_called := True\<rparr>"
    using assms by (intro task_cancel_idle) simp
  then show ?thesis
    using assms
    by (cases "task c") (auto simp: tg_aexit_def tg_cancel_def Let_def split: option.splits)
qed

lemma tg_aexit_failure:
  assumes "typ \<noteq> None"
  shows "fst (tg_aexit typ c) \<noteq> Hangs"
proof -
  let ?c = "task_cancel (c\<lparr>cancel_called := True\<rparr>)"
  have "task ?c = NotSpawned \<or> is_done (task ?c)"
    by (rule task_cancel_not_suspended)
  then show ?thesis
    using assms
    by (cases "task ?c") (auto simp: tg_aexit_def tg_cancel_def Let_def split: option.splits)
qed

lemma join_returns:
  "fst (try_finally
          (if typ = None \<or> typ = Some GeneratorExit then tg_cancel c else (Returns (), c))
          (\<lambda>c1. if typ = Some GeneratorExit then tg_aexit None c1 else tg_aexit typ c1))
     \<noteq> Hangs"
proof (cases "typ = None \<or> typ = Some GeneratorExit")
  case True
  let ?c = "task_cancel (c\<lparr>cancel_called := True\<rparr>)"
  have idle: "task ?c = NotSpawned \<or> is_done (task ?c)"
    by (rule task_cancel_not_suspended)
  have "fst (tg_aexit None ?c) \<noteq> Hangs"
    using idle by (rule tg_aexit_idle)
  with True show ?thesis
    by (auto simp: try_finally_def tg_cancel_def split: prod.splits outcome.splits)
next
  case False
  then have "fst (tg_aexit typ c) \<noteq> Hangs"
    by (intro tg_aexit_failure) simp
  with False show ?thesis
    by (auto simp: try_finally_def split: prod.splits outcome.splits)
qed

lemma try_finally_fst_Hangs:
  "fst (try_finally b f) = Hangs \<longleftrightarrow> fst b = Hangs \<or> fst (f (snd b)) = Hangs"
  by (auto simp: try_finally_def split: prod.splits outcome.splits)

lemma aexit_returns: "fst (aexit typ c) \<noteq> Hangs"
  using join_returns [of "typ" c]
  by (simp add: aexit_def try_finally_fst_Hangs sync_aexit_def)

lemma try_finally_set_state:
  "fst (try_finally b (\<lambda>s. (Returns (), s\<lparr>state := x\<rparr>))) \<noteq> Hangs \<Longrightarrow>
   state (snd (try_finally b (\<lambda>s. (Returns (), s\<lparr>state := x\<rparr>)))) = x"
  by (auto simp: try_finally_def split: prod.splits outcome.splits)

lemma aexit_state: "state (snd (aexit typ c)) = FINISHED"
  using aexit_returns [of "typ" c] unfolding aexit_def
  by (rule try_finally_set_state)


lemma aenter_state: "state (snd (aenter c)) = (if state c = FINISHED then FINISHED else RUNNING)"
  by (simp add: aenter_def spawn_def)

lemma task_except_state [simp]: "state (task_except e c) = state c"
  by (simp add: task_except_def send_exc_def)

lemma task_iteration_state [simp]: "state (task_iteration c) = state c"
  by (simp add: task_iteration_def send_item_def split: prod.splits outcome.splits)

lemma task_sent_state [simp]: "state (task_sent c) = state c"
  by (simp add: task_sent_def split: task.splits)

lemma sync_send_state [simp]: "state (snd (sync_send c)) = state c"
  by (simp add: sync_send_def)

lemma item_receive_state [simp]: "state (snd (item_receive c)) = state c"
  by (simp add: item_receive_def split: task.splits)

lemma anext_ctx_FINISHED:
  "state c = FINISHED \<Longrightarrow>
   anext_ctx c = (Raises (RuntimeError ''AsyncIteratorContext is closed and cannot be iterated''), c)"
  by (simp add: anext_ctx_def)

lemma anext_ctx_EXHAUSTED:
  "state c = EXHAUSTED \<Longrightarrow> anext_ctx c = (Raises StopAsyncIteration, c)"
  by (simp add: anext_ctx_def)

lemma anext_ctx_active_state:
  assumes "state c = RUNNING \<or> state c = BUSY"
  shows "state (snd (anext_ctx c)) \<in> {RUNNING, BUSY, EXHAUSTED}"
proof -
  obtain r1 c1 where s: "(if state c \<noteq> BUSY then sync_send (c\<lparr>state := BUSY\<rparr>)
                   else (Returns (), c)) = (r1, c1)"
    by (cases "(if state c \<noteq> BUSY then sync_send (c\<lparr>state := BUSY\<rparr>)
                   else (Returns (), c))") 
  have c1: "state c1 = BUSY"
  proof (cases "state c = BUSY")
    case True
    then show ?thesis using s by simp
  next
    case False
    then have "c1 = snd (sync_send (c\<lparr>state := BUSY\<rparr>))" using s by simp
    then show ?thesis by simp
  qed
  obtain r2 c2 where r: "item_receive c1 = (r2, c2)"
    by (cases "item_receive c1")
  have "c2 = snd (item_receive c1)" using r by simp
  then have c2: "state c2 = BUSY" using c1 by simp
  show ?thesis
    using assms s r c1 c2
    by (auto simp: anext_ctx_def split: outcome.splits message.splits)
qed

lemma anext_ctx_rank: "rank (state c) \<le> rank (state (snd (anext_ctx c)))"
proof (cases "state c")
  case STANDBY
  let ?c = "snd (aenter (c\<lparr>warnings := warnings c + 1\<rparr>))"
  have e: "aenter (c\<lparr>warnings := warnings c + 1\<rparr>) = (Returns (), ?c)"
    using STANDBY by (simp add: aenter_def)
  have "state ?c = RUNNING"
    using STANDBY by (simp add: aenter_state)
  then show ?thesis using STANDBY by simp
next
  case RUNNING
  then show ?thesis using anext_ctx_active_state [of c] by auto
next
  case FINISHED
  then show ?thesis by (simp add: anext_ctx_FINISHED)
next
  case BUSY
  then show ?thesis using anext_ctx_active_state [of c] by auto
next
  case EXHAUSTED
  then show ?thesis by (simp add: anext_ctx_EXHAUSTED)
qed


lemma aexit_rank: "rank (state c) \<le> rank (state (snd (aexit ty c)))"
  by (cases "state c") (simp_all add: aexit_state)


text \<open>
  Claim C8. For every context, \<open>enter()\<close> while the state is \<open>RUNNING\<close> fails with
  \<open>InvalidState\<close> (the \<open>RuntimeError\<close> "running and cannot be entered"), so that
  entering a second time after an \<open>enter()\<close> that succeeded fails; and \<open>next()\<close>
  after \<open>exit()\<close>, which always leaves the state \<open>FINISHED\<close>, fails with
  \<open>InvalidState\<close> ("closed and cannot be iterated").
\<close>

theorem enter_twice_and_next_after_exit_fail:
  "(state c = RUNNING \<longrightarrow>
      aenter c = (Raises (RuntimeError ''AsyncIteratorContext is running and cannot be entered''), c))
   \<and> (fst (aenter c) = Returns () \<longrightarrow>
      aenter (snd (aenter c)) =
        (Raises (RuntimeError ''AsyncIteratorContext is running and cannot be entered''),
         snd (aenter c)))
   \<and> anext_ctx (snd (aexit ty c)) =
        (Raises (RuntimeError ''AsyncIteratorContext is closed and cannot be iterated''),
         snd (aexit ty c))
   \<and> spec_error_kind (RuntimeError m) = InvalidState"
proof -
  have twice: "aenter (snd (aenter c)) =
        (Raises (RuntimeError ''AsyncIteratorContext is running and cannot be entered''),
         snd (aenter c))" if "fst (aenter c) = Returns ()"
  proof -
    have "state c \<noteq> FINISHED" using that by (auto simp: aenter_def split: if_splits)
    then have "state (snd (aenter c)) = RUNNING" by (simp add: aenter_state)
    then show ?thesis by (rule aenter_RUNNING)
  qed
  show ?thesis
    using twice by (simp add: aenter_RUNNING anext_ctx_FINISHED aexit_state)
qed

text \<open>
  The theorem at the three-item source: the context entered once is \<open>RUNNING\<close> and a
  second \<open>enter()\<close> fails; after \<open>exit()\<close>, \<open>next()\<close> fails.
\<close>

theorem enter_twice_and_next_after_exit_fail_witness:
  "state (snd (aenter (new_ctx three_items))) = RUNNING
   \<and> fst (aenter (new_ctx three_items)) = Returns ()
   \<and> fst (aenter (snd (aenter (new_ctx three_items)))) =
       Raises (RuntimeError ''AsyncIteratorContext is running and cannot be entered'')
   \<and> fst (anext_ctx (snd (aexit None (snd (aenter (new_ctx three_items)))))) =
       Raises (RuntimeError ''AsyncIteratorContext is closed and cannot be iterated'')"
  using enter_twice_and_next_after_exit_fail [of "snd (aenter (new_ctx three_items))" None]
    enter_twice_and_next_after_exit_fail [of "new_ctx three_items"]
  by (simp add: aenter_def new_ctx_def spawn_def)

section \<open>Leaving the context\<close>



section \<open>The order of the states\<close>

text \<open>
  Claim C5, as the code has it. \<open>FINISHED\<close> is terminal: on a context that is
  \<open>FINISHED\<close>, \<open>enter()\<close> and \<open>next()\<close> fail with \<open>InvalidState\<close> and
  \<open>exit()\<close> returns, each leaving the context as it is. \<open>next()\<close> and \<open>exit()\<close>
  never lower the rank of the state along \<open>STANDBY\<close>, \<open>RUNNING\<close>/\<open>BUSY\<close>,
  \<open>EXHAUSTED\<close>, \<open>FINISHED\<close>. \<open>enter()\<close> leaves \<open>FINISHED\<close> alone and sets
  every other state to \<open>RUNNING\<close> (it fails when the state is \<open>RUNNING\<close> already):
  it does not lower the rank either, unless the state is \<open>EXHAUSTED\<close>, which it takes
  back to \<open>RUNNING\<close>.
\<close>

theorem FINISHED_terminal_and_rank_monotone:
  "(state c = FINISHED \<longrightarrow>
      aenter c = (Raises (RuntimeError ''AsyncIteratorContext is closed and cannot be entered''), c)
      \<and> anext_ctx c =
          (Raises (RuntimeError ''AsyncIteratorContext is closed and cannot be iterated''), c)
      \<and> aexit ty c = (Returns (), c))
   \<and> rank (state c) \<le> rank (state (snd (anext_ctx c)))
   \<and> rank (state c) \<le> rank (state (snd (aexit ty c)))
   \<and> state (snd (aenter c)) = (if state c = FINISHED then FINISHED else RUNNING)
   \<and> (state c \<noteq> EXHAUSTED \<longrightarrow> rank (state c) \<le> rank (state (snd (aenter c))))"
proof -
  have "rank (state c) \<le> rank (state (snd (aenter c)))" if "state c \<noteq> EXHAUSTED"
    using that by (cases "state c") (simp_all add: aenter_state)
  then show ?thesis
    by (simp add: anext_ctx_FINISHED aexit_FINISHED anext_ctx_rank aexit_rank aenter_state)
      (simp add: aenter_def)
qed

text \<open>The theorem at a context that was left: it is \<open>FINISHED\<close> and stays so.\<close>

theorem FINISHED_terminal_and_rank_monotone_witness:
  "state (snd (aexit None (new_ctx three_items))) = FINISHED
   \<and> fst (aenter (snd (aexit None (new_ctx three_items)))) =
       Raises (RuntimeError ''AsyncIteratorContext is closed and cannot be entered'')
   \<and> fst (anext_ctx (snd (aexit None (new_ctx three_items)))) =
       Raises (RuntimeError ''AsyncIteratorContext is closed and cannot be iterated'')
   \<and> state (snd (aenter (snd (aexit None (new_ctx three_items))))) = FINISHED
   \<and> state (snd (anext_ctx (snd (aexit None (new_ctx three_items))))) = FINISHED"
  using FINISHED_terminal_and_rank_monotone [of "snd (aexit None (new_ctx three_items))" None]
  by (simp add: aexit_state)

text \<open>
  Claim C5 as stated fails: iterating the empty source without entering ends in
  \<open>EXHAUSTED\<close>, and \<open>enter()\<close> then passes both checks and sets the state back
  to \<open>RUNNING\<close> (line 213), which comes before \<open>EXHAUSTED\<close> in the order of the
  claim.
\<close>

theorem aenter_leaves_EXHAUSTED:
  "state (snd (anext_ctx (new_ctx empty_source))) = EXHAUSTED
   \<and> state (snd (aenter (snd (anext_ctx (new_ctx empty_source))))) = RUNNING
   \<and> rank RUNNING < rank EXHAUSTED"
  by (simp add: anext_ctx_def aenter_def new_ctx_def spawn_def sync_send_def task_iteration_def
      anext_aiterator_def task_except_def task_finally_def item_receive_def empty_source_def)

section \<open>The shutdown of the producer\<close>

lemma task_finally_calls:
  "aclose_calls (aiterator (task_finally p c)) =
     aclose_calls (aiterator c)
       + (if aclose (aiterator c) \<noteq> None \<and> \<not> ag_running (aiterator c) then 1 else 0)"
  by (auto simp: task_finally_def Let_def split: option.splits)


lemma task_finally_task:
  "task (task_finally p c) =
     Done (case aclose (aiterator c) of
             Some (Fails e) \<Rightarrow> if ag_running (aiterator c) \<or> e = GeneratorExit then p else Some e
           | _ \<Rightarrow> p)"
  by (auto simp: task_finally_def Let_def open_cancel_scope_def split: option.splits aclose_hook.splits)

lemma task_finally_item_closed: "item_closed (task_finally p c)"
  by (auto simp: task_finally_def Let_def split: option.splits)






lemma task_iteration_escape:
  assumes "pulls (aiterator c) = Throw e # ps" and "\<not> is_Exception e"
  shows "task_iteration c = task_finally (Some e) (c\<lparr>aiterator := (aiterator c)\<lparr>pulls := ps\<rparr>\<rparr>)"
  using assms by (auto simp: task_iteration_def anext_aiterator_def task_except_def)











lemma task_iteration_AwaitSendExc:
  assumes "task c = AwaitSync" and "task (task_iteration c) = AwaitSendExc e"
  shows "is_Exception e \<and> (\<exists>ps. pulls (aiterator c) = Throw e # ps)"
proof -
  have nd: "\<And>p d. task (task_finally p d) \<noteq> AwaitSendExc e"
    by (simp add: task_finally_task)
  show ?thesis
    using assms nd
    by (auto simp: task_iteration_def anext_aiterator_def task_except_def send_exc_def
        send_item_def split: list.splits pull.splits if_splits)
qed

lemma anext_ctx_channel_closed:
  assumes "state c = RUNNING" and "\<not> sync_closed c" and "task c = AwaitSync"
    and "is_done (task (task_iteration c))"
  shows "anext_ctx c = (Raises StopAsyncIteration, (task_iteration c)\<lparr>state := EXHAUSTED\<rparr>)"
proof -
  have t: "task_iteration (c\<lparr>state := BUSY\<rparr>) = (task_iteration c)\<lparr>state := BUSY\<rparr>"
    by (auto simp: task_iteration_def task_except_def send_exc_def send_item_def
        task_finally_def Let_def split: prod.splits outcome.splits option.splits)
  have cl: "item_closed (task_iteration c)"
    using assms(3,4)
    by (auto simp: task_iteration_def task_except_def send_exc_def send_item_def
        task_finally_item_closed split: prod.splits outcome.splits if_splits)
  show ?thesis
    using assms cl
    by (cases "task (task_iteration c)")
      (simp_all add: anext_ctx_def sync_send_def t item_receive_def)
qed

text \<open>
  Claim C10. An iteration of the producer sends an error on the item channel only when
  it is an instance of \<open>Exception\<close>, raised by the pull. When the pull raises an
  exception \<open>e\<close> that is not an instance of \<open>Exception\<close>, nothing is sent: the
  exception leaves the loop through the \<^verbatim>\<open>finally\<close> clause, which makes the close
  call (if the iterator has a close hook and is not reported as running), the item
  channel is closed, and the task ends with \<open>e\<close> (or with the error of the close
  call). The \<open>next()\<close> call that asked for the item, and the calls after it, raise
  \<open>StopAsyncIteration\<close> and not \<open>e\<close>.
\<close>

theorem BaseException_escapes_producer:
  "task c = AwaitSync \<Longrightarrow>
   (task (task_iteration c) = AwaitSendExc x \<longrightarrow>
      is_Exception x \<and> (\<exists>ps. pulls (aiterator c) = Throw x # ps))
   \<and> (pulls (aiterator c) = Throw e # ps \<and> \<not> is_Exception e \<longrightarrow>
        task (task_iteration c) =
          Done (case aclose (aiterator c) of
                  Some (Fails y) \<Rightarrow>
                    if ag_running (aiterator c) \<or> y = GeneratorExit then Some e else Some y
                | _ \<Rightarrow> Some e)
        \<and> item_closed (task_iteration c)
        \<and> aclose_calls (aiterator (task_iteration c)) =
            aclose_calls (aiterator c)
              + (if aclose (aiterator c) \<noteq> None \<and> \<not> ag_running (aiterator c) then 1 else 0)
        \<and> (state c = RUNNING \<and> \<not> sync_closed c \<longrightarrow>
             fst (anext_ctx c) = Raises StopAsyncIteration
             \<and> fst (anext_ctx c) \<noteq> Raises e
             \<and> state (snd (anext_ctx c)) = EXHAUSTED
             \<and> fst (anext_ctx (snd (anext_ctx c))) = Raises StopAsyncIteration))"
proof -
  assume a: "task c = AwaitSync"
  have 1: "task (task_iteration c) = AwaitSendExc x \<longrightarrow>
      is_Exception x \<and> (\<exists>ps. pulls (aiterator c) = Throw x # ps)"
    using task_iteration_AwaitSendExc [OF a] by blast
  have 2: "task (task_iteration c) =
          Done (case aclose (aiterator c) of
                  Some (Fails y) \<Rightarrow>
                    if ag_running (aiterator c) \<or> y = GeneratorExit then Some e else Some y
                | _ \<Rightarrow> Some e)
        \<and> item_closed (task_iteration c)
        \<and> aclose_calls (aiterator (task_iteration c)) =
            aclose_calls (aiterator c)
              + (if aclose (aiterator c) \<noteq> None \<and> \<not> ag_running (aiterator c) then 1 else 0)
        \<and> (state c = RUNNING \<and> \<not> sync_closed c \<longrightarrow>
             fst (anext_ctx c) = Raises StopAsyncIteration
             \<and> fst (anext_ctx c) \<noteq> Raises e
             \<and> state (snd (anext_ctx c)) = EXHAUSTED
             \<and> fst (anext_ctx (snd (anext_ctx c))) = Raises StopAsyncIteration)"
    if p: "pulls (aiterator c) = Throw e # ps" and n: "\<not> is_Exception e"
  proof -
    let ?d = "c\<lparr>aiterator := (aiterator c)\<lparr>pulls := ps\<rparr>\<rparr>"
    have eq: "task_iteration c = task_finally (Some e) ?d"
      using p n by (rule task_iteration_escape)
    have t: "task (task_iteration c) =
          Done (case aclose (aiterator c) of
                  Some (Fails y) \<Rightarrow>
                    if ag_running (aiterator c) \<or> y = GeneratorExit then Some e else Some y
                | _ \<Rightarrow> Some e)"
      by (simp add: eq task_finally_task split: option.splits aclose_hook.splits)
    have i: "item_closed (task_iteration c)"
      by (simp add: eq task_finally_item_closed)
    have k: "aclose_calls (aiterator (task_iteration c)) =
            aclose_calls (aiterator c)
              + (if aclose (aiterator c) \<noteq> None \<and> \<not> ag_running (aiterator c) then 1 else 0)"
      by (simp add: eq task_finally_calls)
    have ne: "e \<noteq> StopAsyncIteration" using n by auto
    have x: "fst (anext_ctx c) = Raises StopAsyncIteration
             \<and> fst (anext_ctx c) \<noteq> Raises e
             \<and> state (snd (anext_ctx c)) = EXHAUSTED
             \<and> fst (anext_ctx (snd (anext_ctx c))) = Raises StopAsyncIteration"
      if "state c = RUNNING" and "\<not> sync_closed c"
    proof -
      have "is_done (task (task_iteration c))" by (simp add: t)
      then have "anext_ctx c = (Raises StopAsyncIteration, (task_iteration c)\<lparr>state := EXHAUSTED\<rparr>)"
        using that a by (intro anext_ctx_channel_closed) simp_all
      then show ?thesis using ne by (simp add: anext_ctx_def)
    qed
    show ?thesis using t i k x by blast
  qed
  show ?thesis using 1 2 by blast
qed

text \<open>
  The theorem at the source whose first pull raises \<open>KeyboardInterrupt\<close>, and, for
  an error that is sent, at the source with \<open>ValueError\<close> on the second pull.
\<close>

theorem BaseException_escapes_producer_witness:
  "task (snd (aenter (new_ctx interrupted_source))) = AwaitSync
   \<and> pulls (aiterator (snd (aenter (new_ctx interrupted_source)))) = [Throw KeyboardInterrupt]
   \<and> \<not> is_Exception KeyboardInterrupt
   \<and> task (task_iteration (snd (aenter (new_ctx interrupted_source)))) =
       Done (Some KeyboardInterrupt)
   \<and> aclose_calls (aiterator (task_iteration (snd (aenter (new_ctx interrupted_source))))) = 1
   \<and> fst (anext_ctx (snd (aenter (new_ctx interrupted_source)))) = Raises StopAsyncIteration
   \<and> task (task_iteration (snd (anext_ctx (snd (aenter (new_ctx boom_source)))))) =
       AwaitSendExc (ValueError ''boom'')
   \<and> is_Exception (ValueError ''boom'')"
proof -
  have a: "task (snd (aenter (new_ctx interrupted_source))) = AwaitSync"
    by (simp add: aenter_def new_ctx_def spawn_def)
  have b: "task (snd (anext_ctx (snd (aenter (new_ctx boom_source))))) = AwaitSync"
    by (simp add: aenter_def new_ctx_def spawn_def boom_source_def anext_ctx_def sync_send_def
        task_iteration_def anext_aiterator_def send_item_def item_receive_def task_sent_def)
  have s: "task (task_iteration (snd (anext_ctx (snd (aenter (new_ctx boom_source)))))) =
       AwaitSendExc (ValueError ''boom'')"
    by (simp add: aenter_def new_ctx_def spawn_def boom_source_def anext_ctx_def sync_send_def
        task_iteration_def anext_aiterator_def send_item_def item_receive_def task_sent_def
        task_except_def send_exc_def)
  show ?thesis
    using a s
      BaseException_escapes_producer [OF a, where e = KeyboardInterrupt and ps = "[]"]
      BaseException_escapes_producer [OF b, where x = "ValueError ''boom''"]
    by (simp add: aenter_def new_ctx_def spawn_def interrupted_source_def)
qed

section \<open>Iterating a source\<close>

lemma task_finally_pulls [simp]: "pulls (aiterator (task_finally p c)) = pulls (aiterator c)"
  by (auto simp: task_finally_def Let_def split: option.splits)

lemma anext_ctx_item:
  assumes "state c = RUNNING" and "task c = AwaitSync" and "\<not> item_closed c"
    and "\<not> sync_closed c" and "pulls (aiterator c) = Yield v # ps"
  shows "anext_ctx c = (Returns v, c\<lparr>aiterator := (aiterator c)\<lparr>pulls := ps\<rparr>\<rparr>)"
  using assms
  by (cases c)
    (simp add: anext_ctx_def sync_send_def task_iteration_def anext_aiterator_def
      send_item_def item_receive_def task_sent_def)

lemma iterate_items:
  assumes "state c = RUNNING" and "task c = AwaitSync" and "\<not> item_closed c"
    and "\<not> sync_closed c" and "pulls (aiterator c) = map Yield xs @ rest"
  shows "iterate (length xs) c = (map Returns xs, c\<lparr>aiterator := (aiterator c)\<lparr>pulls := rest\<rparr>\<rparr>)"
  using assms
proof (induction xs arbitrary: c)
  case Nil
  then show ?case by simp
next
  case (Cons x xs)
  let ?c = "c\<lparr>aiterator := (aiterator c)\<lparr>pulls := map Yield xs @ rest\<rparr>\<rparr>"
  have step: "anext_ctx c = (Returns x, ?c)"
    using Cons.prems by (intro anext_ctx_item) simp_all
  have "iterate (length xs) ?c = (map Returns xs, ?c\<lparr>aiterator := (aiterator ?c)\<lparr>pulls := rest\<rparr>\<rparr>)"
    using Cons.prems by (intro Cons.IH) simp_all
  then show ?case using step by simp
qed

lemma iterate_add:
  "iterate (m + n) c =
     (fst (iterate m c) @ fst (iterate n (snd (iterate m c))), snd (iterate n (snd (iterate m c))))"
  by (induction m arbitrary: c) (simp_all split: prod.splits)

lemma iterate_EXHAUSTED:
  "state c = EXHAUSTED \<Longrightarrow> iterate n c = (replicate n (Raises StopAsyncIteration), c)"
  by (induction n) (simp_all add: anext_ctx_def)

lemma anext_ctx_exhaustion:
  assumes "state c = RUNNING" and "task c = AwaitSync" and "\<not> sync_closed c"
    and "pulls (aiterator c) = []"
  shows "anext_ctx c = (Raises StopAsyncIteration, (task_finally None c)\<lparr>state := EXHAUSTED\<rparr>)"
proof -
  have t: "task_iteration (c\<lparr>state := BUSY\<rparr>) = (task_finally None c)\<lparr>state := BUSY\<rparr>"
    using assms
    by (cases c)
      (auto simp: task_iteration_def anext_aiterator_def task_except_def task_finally_def Let_def
        split: option.splits)
  show ?thesis
    using assms
    by (simp add: anext_ctx_def sync_send_def t item_receive_def task_finally_task
        task_finally_item_closed)
qed

lemma anext_ctx_error:
  assumes "state c = RUNNING" and "task c = AwaitSync" and "\<not> item_closed c"
    and "\<not> sync_closed c" and "pulls (aiterator c) = Throw e # ps"
    and "is_Exception e" and "e \<noteq> StopAsyncIteration"
  shows "anext_ctx c =
    (Raises e, (task_finally None (c\<lparr>aiterator := (aiterator c)\<lparr>pulls := ps\<rparr>\<rparr>))\<lparr>state := EXHAUSTED\<rparr>)"
proof -
  let ?d = "c\<lparr>aiterator := (aiterator c)\<lparr>pulls := ps\<rparr>\<rparr>"
  have t: "task_iteration (c\<lparr>state := BUSY\<rparr>) = ?d\<lparr>state := BUSY, task := AwaitSendExc e\<rparr>"
    using assms
    by (cases c)
      (simp add: task_iteration_def anext_aiterator_def task_except_def send_exc_def)
  have f: "task_finally None (?d\<lparr>state := BUSY, task := AwaitSendExc e\<rparr>) =
      (task_finally None ?d)\<lparr>state := BUSY\<rparr>"
    by (cases c) (auto simp: task_finally_def Let_def split: option.splits)
  show ?thesis
    using assms
    by (simp add: anext_ctx_def sync_send_def t item_receive_def task_sent_def f)
qed

lemma aexit_task_done:
  assumes "state c \<noteq> FINISHED" and "task c = Done r"
  shows "aexit None c =
    ((case r of None \<Rightarrow> Returns ()
      | Some e \<Rightarrow> if e = CancelledError then Returns () else Raises e),
     c\<lparr>cancel_called := True, sync_closed := True, state := FINISHED\<rparr>)"
  using assms
  by (auto simp: aexit_def try_finally_def tg_cancel_def tg_aexit_def task_cancel_def
      sync_aexit_def Let_def split: option.splits)

lemma aenter_new_ctx:
  "aenter (new_ctx it) = (Returns (), (new_ctx it)\<lparr>state := RUNNING, task := AwaitSync\<rparr>)"
  by (simp add: aenter_def new_ctx_def spawn_def)

lemma count_list_Returns: "e' = Raises e \<Longrightarrow> count_list (map Returns xs) e' = 0"
  by (induction xs) auto

lemma count_list_replicate_other: "x \<noteq> y \<Longrightarrow> count_list (replicate n x) y = 0"
  by (induction n) auto

text \<open>
  Claim C1, as the code has it. For every iterator that yields the items \<open>xs\<close> and
  then signals exhaustion, \<open>enter()\<close>, then \<open>length xs + 1\<close> calls of \<open>next()\<close>,
  then \<open>exit()\<close> give exactly the items in order and then \<open>StopAsyncIteration\<close>;
  \<open>exit()\<close> finishes with the state \<open>FINISHED\<close>; and by then the close hook has
  been called exactly once when the iterator has a close hook and is not reported as
  running, and not at all otherwise. \<open>exit()\<close> returns, unless the close call raised an
  error (other than \<open>GeneratorExit\<close> or a cancellation), which \<open>exit()\<close> raises.
\<close>

theorem full_iteration_then_close:
  assumes "pulls it = map Yield xs"
  shows "fst (scoped_iteration (length xs + 1) (new_ctx it)) =
           map Returns xs @ [Raises StopAsyncIteration]
    \<and> fst (snd (scoped_iteration (length xs + 1) (new_ctx it))) =
        (case aclose it of
           Some (Fails e) \<Rightarrow>
             if ag_running it \<or> e = GeneratorExit \<or> e = CancelledError then Returns ()
             else Raises e
         | _ \<Rightarrow> Returns ())
    \<and> state (snd (snd (scoped_iteration (length xs + 1) (new_ctx it)))) = FINISHED
    \<and> aclose_calls (aiterator (snd (snd (scoped_iteration (length xs + 1) (new_ctx it))))) =
        aclose_calls it + (if aclose it \<noteq> None \<and> \<not> ag_running it then 1 else 0)"
proof -
  let ?c1 = "(new_ctx it)\<lparr>state := RUNNING, task := AwaitSync\<rparr>"
  let ?cm = "?c1\<lparr>aiterator := (aiterator ?c1)\<lparr>pulls := []\<rparr>\<rparr>"
  let ?c2 = "(task_finally None ?cm)\<lparr>state := EXHAUSTED\<rparr>"
  let ?r = "case aclose it of
              Some (Fails e) \<Rightarrow> if ag_running it \<or> e = GeneratorExit then None else Some e
            | _ \<Rightarrow> None"
  have items: "iterate (length xs) ?c1 = (map Returns xs, ?cm)"
    using assms by (intro iterate_items) (simp_all add: new_ctx_def)
  have last: "anext_ctx ?cm = (Raises StopAsyncIteration, ?c2)"
    by (intro anext_ctx_exhaustion) (simp_all add: new_ctx_def)
  have it: "iterate (length xs + 1) ?c1 = (map Returns xs @ [Raises StopAsyncIteration], ?c2)"
    using items last by (subst iterate_add) simp
  have t: "task ?c2 = Done ?r"
    by (simp add: task_finally_task new_ctx_def split: option.splits aclose_hook.splits)
  have ex: "aexit None ?c2 =
    ((case ?r of None \<Rightarrow> Returns ()
      | Some e \<Rightarrow> if e = CancelledError then Returns () else Raises e),
     ?c2\<lparr>cancel_called := True, sync_closed := True, state := FINISHED\<rparr>)"
    using t by (intro aexit_task_done) simp_all
  have sc: "scoped_iteration (length xs + 1) (new_ctx it) =
    (map Returns xs @ [Raises StopAsyncIteration],
     (case ?r of None \<Rightarrow> Returns ()
      | Some e \<Rightarrow> if e = CancelledError then Returns () else Raises e),
     ?c2\<lparr>cancel_called := True, sync_closed := True, state := FINISHED\<rparr>)"
    unfolding scoped_iteration_def aenter_new_ctx using it ex by simp
  have calls: "aclose_calls (aiterator ?c2) =
      aclose_calls it + (if aclose it \<noteq> None \<and> \<not> ag_running it then 1 else 0)"
    by (simp add: task_finally_calls new_ctx_def)
  show ?thesis
    unfolding sc using calls
    by (auto split: option.splits aclose_hook.splits)
qed

text \<open>
  The theorem at the three-item source: the scenario \<open>enter()\<close>; \<open>next()\<close> gives 1,
  2, 3 and then fails with \<open>StopAsyncIteration\<close>; \<open>exit()\<close> succeeds; the close hook
  was called once.
\<close>

theorem full_iteration_then_close_witness:
  "pulls three_items = map Yield [1, 2, 3]
   \<and> fst (scoped_iteration 4 (new_ctx three_items)) =
       [Returns 1, Returns 2, Returns 3, Raises StopAsyncIteration]
   \<and> fst (snd (scoped_iteration 4 (new_ctx three_items))) = Returns ()
   \<and> state (snd (snd (scoped_iteration 4 (new_ctx three_items)))) = FINISHED
   \<and> aclose_calls (aiterator (snd (snd (scoped_iteration 4 (new_ctx three_items))))) = 1"
proof -
  have p: "pulls three_items = map Yield [1, 2, 3]"
    by (simp add: three_items_def)
  show ?thesis
    using p full_iteration_then_close [OF p]
    by (simp add: three_items_def numeral_eq_Suc)
qed

text \<open>
  Claim C1 as stated fails for an iterator that has a close hook and reports itself as
  running (\<open>ag_running\<close> true): the items come as claimed, \<open>exit()\<close> returns, and
  the close hook has not been called.
\<close>

theorem running_source_is_not_closed:
  "fst (scoped_iteration 2 (new_ctx running_source)) = [Returns 1, Raises StopAsyncIteration]
   \<and> fst (snd (scoped_iteration 2 (new_ctx running_source))) = Returns ()
   \<and> aclose (aiterator (snd (snd (scoped_iteration 2 (new_ctx running_source))))) = Some Completes
   \<and> aclose_calls (aiterator (snd (snd (scoped_iteration 2 (new_ctx running_source))))) = 0"
proof -
  have p: "pulls running_source = map Yield [1]"
    by (simp add: running_source_def)
  have s: "scoped_iteration 2 (new_ctx running_source) =
    ([Returns 1, Raises StopAsyncIteration], Returns (),
     \<lparr>state = FINISHED, aiterator = running_source\<lparr>pulls := []\<rparr>, task = Done None,
      cancel_called = True, item_closed = True, sync_closed = True, warnings = 0\<rparr>)"
    by (simp add: scoped_iteration_def aenter_def new_ctx_def spawn_def running_source_def
        anext_ctx_def sync_send_def task_iteration_def anext_aiterator_def send_item_def
        item_receive_def task_sent_def task_except_def task_finally_def aexit_def
        try_finally_def tg_cancel_def tg_aexit_def task_cancel_def sync_aexit_def
        numeral_2_eq_2)
  show ?thesis
    unfolding s by (simp add: running_source_def)
qed

text \<open>
  Claim C2, as the code has it. For every iterator whose pull number \<open>length xs + 1\<close>
  raises an error \<open>e\<close> that is an instance of \<open>Exception\<close> and not the exhaustion
  signal, after the items \<open>xs\<close>: \<open>next()\<close> gives the items \<open>xs\<close> and then raises
  \<open>e\<close>; the state is then \<open>EXHAUSTED\<close> and the iterator is not pulled again; every
  further \<open>next()\<close> raises \<open>StopAsyncIteration\<close> and leaves the context as it is;
  and among the outcomes of all these calls \<open>e\<close> occurs exactly once.
\<close>

theorem iterator_error_raised_once:
  assumes "pulls it = map Yield xs @ Throw e # rest"
    and "is_Exception e" and "e \<noteq> StopAsyncIteration"
  shows "fst (iterate (length xs + 1) (snd (aenter (new_ctx it)))) = map Returns xs @ [Raises e]
    \<and> state (snd (iterate (length xs + 1) (snd (aenter (new_ctx it))))) = EXHAUSTED
    \<and> pulls (aiterator (snd (iterate (length xs + 1) (snd (aenter (new_ctx it)))))) = rest
    \<and> iterate n (snd (iterate (length xs + 1) (snd (aenter (new_ctx it))))) =
        (replicate n (Raises StopAsyncIteration),
         snd (iterate (length xs + 1) (snd (aenter (new_ctx it)))))
    \<and> count_list (fst (iterate (length xs + 1 + n) (snd (aenter (new_ctx it))))) (Raises e) = 1"
proof -
  let ?c1 = "(new_ctx it)\<lparr>state := RUNNING, task := AwaitSync\<rparr>"
  let ?cm = "?c1\<lparr>aiterator := (aiterator ?c1)\<lparr>pulls := Throw e # rest\<rparr>\<rparr>"
  let ?c2 = "(task_finally None (?cm\<lparr>aiterator := (aiterator ?cm)\<lparr>pulls := rest\<rparr>\<rparr>))
               \<lparr>state := EXHAUSTED\<rparr>"
  have items: "iterate (length xs) ?c1 = (map Returns xs, ?cm)"
    using assms(1) by (intro iterate_items) (simp_all add: new_ctx_def)
  have err: "anext_ctx ?cm = (Raises e, ?c2)"
    using assms(2,3) by (intro anext_ctx_error) (simp_all add: new_ctx_def)
  have it: "iterate (length xs + 1) ?c1 = (map Returns xs @ [Raises e], ?c2)"
    using items err by (subst iterate_add) simp
  have st: "state ?c2 = EXHAUSTED" by simp
  have more: "iterate n ?c2 = (replicate n (Raises StopAsyncIteration), ?c2)"
    using st by (rule iterate_EXHAUSTED)
  have all: "iterate (length xs + 1 + n) ?c1 =
      (map Returns xs @ [Raises e] @ replicate n (Raises StopAsyncIteration), ?c2)"
    using it more by (subst iterate_add) simp
  have cnt: "count_list (map Returns xs @ [Raises e] @ replicate n (Raises StopAsyncIteration))
      (Raises e) = 1"
    using assms(3) by (simp add: count_list_Returns count_list_replicate_other)
  show ?thesis
    unfolding aenter_new_ctx snd_conv it all more fst_conv using cnt by simp
qed

text \<open>
  The theorem at the source that raises \<open>ValueError\<close> on its second pull: \<open>next()\<close>
  gives 1, then raises the error; the state is \<open>EXHAUSTED\<close>; three more calls raise
  \<open>StopAsyncIteration\<close>.
\<close>

theorem iterator_error_raised_once_witness:
  "pulls boom_source = map Yield [1] @ Throw (ValueError ''boom'') # []
   \<and> fst (iterate 2 (snd (aenter (new_ctx boom_source)))) =
       [Returns 1, Raises (ValueError ''boom'')]
   \<and> state (snd (iterate 2 (snd (aenter (new_ctx boom_source))))) = EXHAUSTED
   \<and> fst (iterate 3 (snd (iterate 2 (snd (aenter (new_ctx boom_source)))))) =
       [Raises StopAsyncIteration, Raises StopAsyncIteration, Raises StopAsyncIteration]"
proof -
  have p: "pulls boom_source = map Yield [1] @ Throw (ValueError ''boom'') # []"
    by (simp add: boom_source_def)
  have e: "is_Exception (ValueError ''boom'')" by simp
  have n: "ValueError ''boom'' \<noteq> StopAsyncIteration" by simp
  show ?thesis
    using p iterator_error_raised_once [OF p e n, of 3]
    by (simp add: numeral_eq_Suc)
qed

text \<open>
  Claim C2 as stated fails for an error that is not an instance of \<open>Exception\<close>: when
  the first pull raises \<open>KeyboardInterrupt\<close>, no \<open>next()\<close> call raises it (the calls
  raise \<open>StopAsyncIteration\<close>); it is \<open>exit()\<close> that raises it.
\<close>

theorem KeyboardInterrupt_is_not_raised_by_next:
  "pulls interrupted_source = [Throw KeyboardInterrupt]
   \<and> fst (iterate 2 (snd (aenter (new_ctx interrupted_source)))) =
       [Raises StopAsyncIteration, Raises StopAsyncIteration]
   \<and> fst (aexit None (snd (iterate 2 (snd (aenter (new_ctx interrupted_source)))))) =
       Raises KeyboardInterrupt"
  by (simp add: aenter_def new_ctx_def spawn_def interrupted_source_def
        anext_ctx_def sync_send_def task_iteration_def anext_aiterator_def
        item_receive_def task_except_def task_finally_def open_cancel_scope_def aexit_def
        try_finally_def tg_cancel_def tg_aexit_def task_cancel_def sync_aexit_def
        numeral_2_eq_2)

section \<open>Wrapping\<close>

lemma issubclass_ctx_base: "issubclass_ctx k AsyncIteratorContext"
  by (induction k) simp_all

lemma isinstance_Context: "isinstance (Context k c) (CtxClass AsyncIteratorContext)"
  by (simp add: isinstance_def issubclass_ctx_base)

lemma init_cases:
  "AsyncIteratorContext_init cls obj =
     (case obj of
        AsyncIterator n it \<Rightarrow> Inr (Context cls (new_ctx it))
      | Context k c \<Rightarrow> Inl (TypeError (repr obj @ '' is already an AsyncIteratorContext''))
      | _ \<Rightarrow> Inl (TypeError (quoted (type_name obj) @ '' object is not an async iterator'')))"
  by (cases obj)
    (simp_all add: AsyncIteratorContext_init_def assert_async_iterator_def isinstance_def
      issubclass_ctx_base)

text \<open>
  Claim C6, as the code has it. For every context object, of \<open>AsyncIteratorContext\<close>
  or of a class derived from it, the constructor fails with the \<open>TypeError\<close> "... is
  already an AsyncIteratorContext": the error of the capability checks
  (\<open>TypeMismatch\<close>).
\<close>

theorem init_rejects_context_with_TypeError:
  "AsyncIteratorContext_init cls (Context k c) =
     Inl (TypeError (repr (Context k c) @ '' is already an AsyncIteratorContext''))
   \<and> spec_error_kind (TypeError (repr (Context k c) @ '' is already an AsyncIteratorContext''))
       = TypeMismatch"
  by (simp add: init_cases)

text \<open>
  Claim C6 as stated fails: the error raised for a context handed to the constructor is
  a \<open>TypeError\<close>, not the \<open>RuntimeError\<close> that the state machine raises
  (\<open>InvalidState\<close>).
\<close>

theorem rewrap_error_is_not_InvalidState:
  "AsyncIteratorContext_init AsyncIteratorContext
       (Context AsyncIteratorContext (new_ctx empty_source)) =
     Inl (TypeError ''<AsyncIteratorContext object> is already an AsyncIteratorContext'')
   \<and> spec_error_kind
        (TypeError ''<AsyncIteratorContext object> is already an AsyncIteratorContext'')
       \<noteq> InvalidState"
  by (simp add: AsyncIteratorContext_init_def assert_async_iterator_def isinstance_def repr_def)

text \<open>
  Claim C7, as the code has it. For every asynchronous iterable and every class
  \<open>cls\<close> derived from \<open>AsyncIteratorContext\<close> (or that class itself): when the
  iterator form is an instance of \<open>cls\<close>, \<open>aitercontext\<close> returns it unchanged;
  otherwise it calls the constructor, which makes a new context in \<open>STANDBY\<close> around
  an iterator that is not a context, and fails with \<open>TypeError\<close> for a context (of a
  class that does not derive from \<open>cls\<close>) and for an object without \<open>__anext__\<close>.
\<close>

theorem aitercontext_wraps_once:
  "aiter aiterable = Inr obj \<Longrightarrow>
   aitercontext aiterable (CtxClass k) =
     (if isinstance obj (CtxClass k) then Inr obj
      else (case obj of
              AsyncIterator n it \<Rightarrow> Inr (Context k (new_ctx it))
            | Context k' c \<Rightarrow>
                Inl (TypeError (repr obj @ '' is already an AsyncIteratorContext''))
            | _ \<Rightarrow>
                Inl (TypeError (quoted (type_name obj) @ '' object is not an async iterator''))))"
  by (simp add: aitercontext_def init_cases)

text \<open>
  The theorem at an iterator over the three-item source, which is wrapped, and at the
  context so made, which is returned unchanged.
\<close>

theorem aitercontext_wraps_once_witness:
  "aiter (AsyncIterator ''async_generator'' three_items) =
     Inr (AsyncIterator ''async_generator'' three_items)
   \<and> aitercontext (AsyncIterator ''async_generator'' three_items)
        (CtxClass AsyncIteratorContext) =
       Inr (Context AsyncIteratorContext (new_ctx three_items))
   \<and> aitercontext (Context AsyncIteratorContext (new_ctx three_items))
        (CtxClass AsyncIteratorContext) =
       Inr (Context AsyncIteratorContext (new_ctx three_items))"
proof -
  have a: "aiter (AsyncIterator ''async_generator'' three_items) =
     Inr (AsyncIterator ''async_generator'' three_items)"
    by (simp add: aiter_def assert_async_iterable_def)
  have b: "aiter (Context AsyncIteratorContext (new_ctx three_items)) =
     Inr (Context AsyncIteratorContext (new_ctx three_items))"
    by (simp add: aiter_def assert_async_iterable_def)
  show ?thesis
    using a aitercontext_wraps_once [OF a, of AsyncIteratorContext]
      aitercontext_wraps_once [OF b, of AsyncIteratorContext]
    by (simp add: isinstance_def)
qed

text \<open>
  Claim C7 as stated fails: with a class derived from \<open>AsyncIteratorContext\<close> as
  \<open>cls\<close>, a context of the base class is not an instance of \<open>cls\<close>, and
  \<open>aitercontext\<close> makes no new context around it: the constructor fails.
\<close>

theorem aitercontext_subclass_rejects_base_context:
  "aiter (Context AsyncIteratorContext (new_ctx three_items)) =
     Inr (Context AsyncIteratorContext (new_ctx three_items))
   \<and> \<not> isinstance (Context AsyncIteratorContext (new_ctx three_items))
        (CtxClass (Subclass ''MyContext'' AsyncIteratorContext))
   \<and> aitercontext (Context AsyncIteratorContext (new_ctx three_items))
        (CtxClass (Subclass ''MyContext'' AsyncIteratorContext)) =
       Inl (TypeError ''<AsyncIteratorContext object> is already an AsyncIteratorContext'')"
  by (simp add: aitercontext_def aiter_def assert_async_iterable_def isinstance_def
      AsyncIteratorContext_init_def assert_async_iterator_def repr_def)

section \<open>The wrapper of \<open>async_\<close>\<close>

text \<open>
  Claim C9, as the code has it. For every function \<open>fn\<close> and arguments, awaiting
  \<open>async_(fn)(args)\<close> calls \<open>fn\<close> and awaits what it returns: when \<open>fn\<close>
  returns an awaitable, the wrapper suspends as often as that awaitable does (possibly
  never) and returns or raises what it does; when \<open>fn\<close> raises, the wrapper raises the
  same without suspending; when \<open>fn\<close> returns a value that is not awaitable, the
  wrapper raises \<open>TypeError\<close>.
\<close>

theorem async_wrapper_awaits_result:
  "await (async_wrapper fn args) =
     (case fn args of
        Inl e \<Rightarrow> (0, Inl e)
      | Inr (Awaitable n r) \<Rightarrow> (n, r)
      | Inr (Plain v) \<Rightarrow>
          (0, Inl (TypeError (''object can'' @ [CHR 0x27] @ ''t be used in ''
                              @ quoted ''await'' @ '' expression''))))"
  by (simp add: async_wrapper_def await_def split: sum.splits pyvalue.splits)

text \<open>
  Claim C9 as stated fails for an ordinary function: the wrapper of the successor
  function on 2 does not return 3 but raises \<open>TypeError\<close>, and it does not suspend.
\<close>

theorem async_wrapper_plain_function_fails:
  "await (async_wrapper (\<lambda>x::nat. Inr (Plain (x + 1))) 2) =
     (0, Inl (TypeError (''object can'' @ [CHR 0x27] @ ''t be used in ''
                         @ quoted ''await'' @ '' expression'')))
   \<and> snd (await (async_wrapper (\<lambda>x::nat. Inr (Plain (x + 1))) 2)) \<noteq> Inr 3
   \<and> fst (await (async_wrapper (\<lambda>x::nat. Inr (Plain (x + 1))) 2)) = 0"
  by (simp add: async_wrapper_def await_def)

end
